theory Spec2Isabelle
  imports Complex_Main
begin

section \<open>GraphiteEngine: the WebGPU renderer, its mesh buffer cache and the actor registry\<close>

text \<open>
  A shallow embedding of \<^verbatim>\<open>WebGPURender.ts\<close>, of class \<^verbatim>\<open>WebGPUMesh\<close> and of
  \<^verbatim>\<open>Actor.ts\<close>. JavaScript objects are references (natural numbers) into explicit
  stores; the GPU device is a state that hands out fresh handles and records every call
  made on it, in order. JavaScript numbers are only stored and copied by this code, never
  computed with (apart from one division), so they are modelled as rationals.
\<close>

subsection \<open>The GPU device\<close>

type_synonym handle = nat
type_synonym ref = nat
type_synonym number = rat

datatype error = Error string

datatype buffer_usage = VERTEX | UNIFORM | COPY_DST

datatype load_op = LoadClear | LoadLoad
datatype store_op = StoreStore | StoreDiscard

record color_attachment =
  ca_view :: handle
  ca_clearValue :: "number \<times> number \<times> number \<times> number"
  ca_loadOp :: load_op
  ca_storeOp :: store_op

record depth_attachment =
  da_view :: handle
  da_depthClearValue :: number
  da_depthLoadOp :: load_op
  da_depthStoreOp :: store_op

record render_pass_descriptor =
  colorAttachments :: "color_attachment list"
  depthStencilAttachment :: depth_attachment

text \<open>
  A value handed to the bind-group builder. The parameter type of the source is
  \<^verbatim>\<open>GPUBuffer | GPUTexture | GPUSampler\<close>; the builder tells the kinds apart at run time
  with \<^verbatim>\<open>instanceof\<close>, so the model has a fourth constructor for any other run-time
  value (for instance a texture view), which only an unchecked cast can supply.
\<close>

datatype gpu_resource =
    GPUBuffer handle
  | GPUTexture handle
  | GPUSampler handle
  | OtherValue handle

datatype binding_resource =
    BufferBinding handle
  | TextureView handle
  | Unchanged gpu_resource

record bind_group_entry =
  binding :: nat
  resource :: binding_resource

datatype gpu_event =
    CreateCommandEncoder handle
  | GetCurrentTexture handle handle
  | CreateView handle handle
  | BeginRenderPass handle render_pass_descriptor handle
  | CreateBuffer nat "buffer_usage list" handle
  | WriteBuffer handle nat "number list"
  | GetBindGroupLayout handle nat handle
  | CreateBindGroup handle "bind_group_entry list" handle
  | SetPipeline handle handle
  | SetVertexBuffer handle nat handle
  | SetBindGroup handle nat handle
  | Draw handle number
  | EndPass handle
  | Finish handle handle
  | Submit "handle list"

record gpu_state =
  next_handle :: handle
  events :: "gpu_event list"

definition fresh :: "gpu_state \<Rightarrow> handle \<times> gpu_state" where
  "fresh d = (next_handle d, d\<lparr>next_handle := Suc (next_handle d)\<rparr>)"

definition emit :: "gpu_event \<Rightarrow> gpu_state \<Rightarrow> gpu_state" where
  "emit e d = d\<lparr>events := events d @ [e]\<rparr>"

text \<open>\<^verbatim>\<open>new Float32Array(t)\<close>: four bytes an element (the rounding to single precision
  is not modelled).\<close>

datatype Float32Array = Float32Array "number list"

fun byteLength :: "Float32Array \<Rightarrow> nat" where
  "byteLength (Float32Array t) = 4 * length t"

fun elements :: "Float32Array \<Rightarrow> number list" where
  "elements (Float32Array t) = t"

definition createBuffer :: "nat \<Rightarrow> buffer_usage list \<Rightarrow> gpu_state \<Rightarrow> handle \<times> gpu_state" where
  "createBuffer sz usage d =
     (let (b, d1) = fresh d in (b, emit (CreateBuffer sz usage b) d1))"

definition writeBuffer :: "handle \<Rightarrow> nat \<Rightarrow> Float32Array \<Rightarrow> gpu_state \<Rightarrow> gpu_state" where
  "writeBuffer b off tf d = emit (WriteBuffer b off (elements tf)) d"

subsection \<open>Vector3\<close>

record Vector3 =
  x :: number
  y :: number
  z :: number

text \<open>\<^verbatim>\<open>a || b\<close> on numbers: \<^verbatim>\<open>b\<close> when \<^verbatim>\<open>a\<close> is zero (NaN and undefined do not
  occur among rationals), else \<^verbatim>\<open>a\<close>.\<close>

definition num_or :: "number \<Rightarrow> number \<Rightarrow> number" where
  "num_or a b = (if a = 0 then b else a)"

definition Vector3_new :: "number \<Rightarrow> number \<Rightarrow> number \<Rightarrow> Vector3" where
  "Vector3_new a b c = \<lparr>x = num_or a 0, y = num_or b 0, z = num_or c 0\<rparr>"

definition toArray :: "Vector3 \<Rightarrow> number list" where
  "toArray v = [x v, y v, z v]"

subsection \<open>Vertex\<close>

text \<open>
  Modelled from the spec: class \<^verbatim>\<open>Vertex\<close> (\<^verbatim>\<open>Render/Vertex.ts\<close>) is not among the
  sources. The spec gives a vertex a position of 3 floats, a uv of 2 floats and a normal
  of 3 floats; the renderer builds one from a position alone, so the uv and the normal a
  vertex gets by default are parameters of the constructor here.
\<close>

record Vertex =
  position :: Vector3
  uv :: "number \<times> number"
  normal :: Vector3

definition Vertex_new :: "number \<times> number \<Rightarrow> Vector3 \<Rightarrow> Vector3 \<Rightarrow> Vertex" where
  "Vertex_new defaultUV defaultNormal pos =
     \<lparr>position = pos, uv = defaultUV, normal = defaultNormal\<rparr>"

definition getPosition :: "Vertex \<Rightarrow> number list" where
  "getPosition v = toArray (position v)"

definition getUV :: "Vertex \<Rightarrow> number list" where
  "getUV v = [fst (uv v), snd (uv v)]"

definition getNormal :: "Vertex \<Rightarrow> number list" where
  "getNormal v = toArray (normal v)"

subsection \<open>WebGPUMesh\<close>

record WebGPUMesh =
  vertices :: "number list"
  vertexBuffer :: "handle option"

definition WebGPUMesh_new :: WebGPUMesh where
  "WebGPUMesh_new = \<lparr>vertices = [], vertexBuffer = None\<rparr>"

definition generateVertexBuffer ::
  "gpu_state \<Rightarrow> number list \<Rightarrow> WebGPUMesh \<Rightarrow> handle \<times> WebGPUMesh \<times> gpu_state" where
  "generateVertexBuffer d t m =
     (let tf = Float32Array t;
          (buffer, d1) = createBuffer (byteLength tf) [VERTEX, COPY_DST] d;
          d2 = writeBuffer buffer 0 tf d1
      in (buffer, m\<lparr>vertexBuffer := Some buffer\<rparr>, d2))"

definition getVertexBuffer :: "gpu_state \<Rightarrow> WebGPUMesh \<Rightarrow> handle \<times> WebGPUMesh \<times> gpu_state" where
  "getVertexBuffer d m =
     (case vertexBuffer m of
        None \<Rightarrow> generateVertexBuffer d (vertices m) m
      | Some vb \<Rightarrow> (vb, m, d))"

definition push :: "number list \<Rightarrow> WebGPUMesh \<Rightarrow> WebGPUMesh" where
  "push xs m = m\<lparr>vertices := vertices m @ xs\<rparr>"

definition addVertexAsNumbers :: "number list \<Rightarrow> WebGPUMesh \<Rightarrow> WebGPUMesh" where
  "addVertexAsNumbers xs m = push xs m"

fun addVertex :: "Vertex list \<Rightarrow> WebGPUMesh \<Rightarrow> WebGPUMesh" where
  "addVertex [] m = m"
| "addVertex (vert # vertex) m =
     addVertex vertex (push (getNormal vert) (push (getUV vert) (push (getPosition vert) m)))"

definition setVertices :: "number list \<Rightarrow> WebGPUMesh \<Rightarrow> WebGPUMesh" where
  "setVertices vs m = m\<lparr>vertices := vs\<rparr>"

definition getVertices :: "WebGPUMesh \<Rightarrow> number list" where
  "getVertices m = vertices m"

definition reset :: "WebGPUMesh \<Rightarrow> WebGPUMesh" where
  "reset m = m\<lparr>vertexBuffer := None\<rparr>"

subsection \<open>RenderingCanvas\<close>

text \<open>
  Modelled from the spec: class \<^verbatim>\<open>RenderingCanvas\<close> (\<^verbatim>\<open>Render/RenderingCanvas.ts\<close>) is
  not among the sources. The spec calls it a surface that is either visible or hidden;
  \<^verbatim>\<open>displayCanvas\<close> makes it visible and \<^verbatim>\<open>hideCanvas\<close> hides it.
\<close>

record RenderingCanvas =
  canvas :: handle
  visible :: bool

definition displayCanvas :: "RenderingCanvas \<Rightarrow> RenderingCanvas" where
  "displayCanvas c = c\<lparr>visible := True\<rparr>"

definition hideCanvas :: "RenderingCanvas \<Rightarrow> RenderingCanvas" where
  "hideCanvas c = c\<lparr>visible := False\<rparr>"

subsection \<open>Actor and the object store\<close>

text \<open>
  An actor holds references to its transform, its mesh and its material. Classes
  \<^verbatim>\<open>Transform\<close>, \<^verbatim>\<open>Material\<close>, \<^verbatim>\<open>Mesh\<close> and \<^verbatim>\<open>WebGPUCamera\<close> are not among the
  sources: a \<^verbatim>\<open>Mesh\<close> is used by the renderer as a \<^verbatim>\<open>WebGPUMesh\<close> and is modelled as
  one; what the other collaborators return is a parameter (record \<open>collaborators\<close>),
  and whatever they do on the device themselves is outside the record kept here.
  The camera is an actor-compatible object in the same store.
\<close>

record Actor =
  transform :: ref
  mesh :: ref
  material :: ref

record world =
  gpuState :: gpu_state
  next_ref :: ref
  Actor_actors :: "ref list"
  actorObjs :: "ref \<Rightarrow> Actor"
  meshObjs :: "ref \<Rightarrow> WebGPUMesh"

record collaborators =
  getRenderPipeline :: "ref \<Rightarrow> handle"
  getTransformationMatrix :: "ref \<Rightarrow> Float32Array"
  getViewTransformationMatrix :: "ref \<Rightarrow> Float32Array"
  getRotationMatrix :: "ref \<Rightarrow> Float32Array"
  getProjectionBuffer :: "ref \<Rightarrow> handle"

text \<open>The constructor: \<^verbatim>\<open>Actor.actors.push(this)\<close>, then three fresh collaborators.\<close>

definition Actor_new :: "world \<Rightarrow> ref \<times> world" where
  "Actor_new w =
     (let this = next_ref w;
          w1 = w\<lparr>next_ref := Suc this, Actor_actors := Actor_actors w @ [this]\<rparr>;
          t = next_ref w1;
          m = Suc t;
          mat = Suc m;
          w2 = w1\<lparr>next_ref := Suc mat, meshObjs := (meshObjs w1)(m := WebGPUMesh_new)\<rparr>
      in (this, w2\<lparr>actorObjs := (actorObjs w2)(this := \<lparr>transform = t, mesh = m, material = mat\<rparr>)\<rparr>))"

definition getActors :: "world \<Rightarrow> ref list" where
  "getActors w = Actor_actors w"

definition update :: "ref \<Rightarrow> world \<Rightarrow> world" where
  "update this w = w"

definition getMesh :: "world \<Rightarrow> ref \<Rightarrow> ref" where
  "getMesh w this = mesh (actorObjs w this)"

definition getMaterial :: "world \<Rightarrow> ref \<Rightarrow> ref" where
  "getMaterial w this = material (actorObjs w this)"

definition getTransform :: "world \<Rightarrow> ref \<Rightarrow> ref" where
  "getTransform w this = transform (actorObjs w this)"

definition setMesh :: "ref \<Rightarrow> ref \<Rightarrow> world \<Rightarrow> world" where
  "setMesh this m w = w\<lparr>actorObjs := (actorObjs w)(this := (actorObjs w this)\<lparr>mesh := m\<rparr>)\<rparr>"

definition setMaterial :: "ref \<Rightarrow> ref \<Rightarrow> world \<Rightarrow> world" where
  "setMaterial this mat w =
     w\<lparr>actorObjs := (actorObjs w)(this := (actorObjs w this)\<lparr>material := mat\<rparr>)\<rparr>"

text \<open>Every operation of class \<^verbatim>\<open>Actor\<close>, and a program as a list of them.\<close>

datatype actor_op =
    OpNew
  | OpUpdate ref
  | OpGetActors
  | OpGetMesh ref
  | OpGetMaterial ref
  | OpGetTransform ref
  | OpSetMesh ref ref
  | OpSetMaterial ref ref

fun actor_step :: "actor_op \<Rightarrow> world \<Rightarrow> ref list \<times> world" where
  "actor_step OpNew w = (let (this, w') = Actor_new w in ([this], w'))"
| "actor_step (OpUpdate a) w = ([], update a w)"
| "actor_step OpGetActors w = ([], w)"
| "actor_step (OpGetMesh a) w = ([], w)"
| "actor_step (OpGetMaterial a) w = ([], w)"
| "actor_step (OpGetTransform a) w = ([], w)"
| "actor_step (OpSetMesh a m) w = ([], setMesh a m w)"
| "actor_step (OpSetMaterial a mat) w = ([], setMaterial a mat w)"

text \<open>Runs the operations in order; returns the actors constructed, in order.\<close>

fun actor_run :: "actor_op list \<Rightarrow> world \<Rightarrow> ref list \<times> world" where
  "actor_run [] w = ([], w)"
| "actor_run (opn # ops) w =
     (let (made, w1) = actor_step opn w;
          (made', w2) = actor_run ops w1
      in (made @ made', w2))"

subsection \<open>WebGPURenderer\<close>

record WebGPURenderer =
  usePostProcessing :: bool
  renderingCanvas :: RenderingCanvas
  postProcessingRenderingCanvas :: RenderingCanvas
  gpu :: handle
  adapter :: "handle option"
  device :: "handle option"
  canvasContext :: "handle option"
  postProcessingContext :: "handle option"
  postProcessingPipeline :: "handle option"
  depthView :: "handle option"
  quadMesh :: WebGPUMesh
  sampler :: "handle option"
  primitiveTopology :: string

definition setupQuadMesh :: "number \<times> number \<Rightarrow> Vector3 \<Rightarrow> WebGPUMesh" where
  "setupQuadMesh defaultUV defaultNormal =
     (let vertex = Vertex_new defaultUV defaultNormal
      in addVertex
           [vertex (Vector3_new (- 1) 1 0),
            vertex (Vector3_new (- 1) (- 1) 0),
            vertex (Vector3_new 1 (- 1) 0),
            vertex (Vector3_new (- 1) 1 0),
            vertex (Vector3_new 1 1 0),
            vertex (Vector3_new 1 (- 1) 0)]
           WebGPUMesh_new)"

definition setupGPU :: "handle option \<Rightarrow> error + handle" where
  "setupGPU navigator_gpu =
     (case navigator_gpu of
        None \<Rightarrow> Inl (Error ''Can't get the GPU'')
      | Some g \<Rightarrow> Inr g)"

text \<open>
  The constructor. Its parameters are what the environment supplies: \<^verbatim>\<open>navigator.gpu\<close>,
  the two \<^verbatim>\<open>new RenderingCanvas()\<close> objects and the defaults of \<^verbatim>\<open>Vertex\<close>. The
  asynchronous \<^verbatim>\<open>setup()\<close> only runs after the constructor has returned.
\<close>

definition WebGPURenderer_new ::
  "handle option \<Rightarrow> RenderingCanvas \<Rightarrow> RenderingCanvas \<Rightarrow> number \<times> number \<Rightarrow> Vector3
     \<Rightarrow> error + WebGPURenderer" where
  "WebGPURenderer_new navigator_gpu canvas1 canvas2 defaultUV defaultNormal =
     (let qm = setupQuadMesh defaultUV defaultNormal
      in case setupGPU navigator_gpu of
           Inl e \<Rightarrow> Inl e
         | Inr g \<Rightarrow>
             Inr \<lparr>usePostProcessing = False,
                  renderingCanvas = displayCanvas canvas1,
                  postProcessingRenderingCanvas = canvas2,
                  gpu = g,
                  adapter = None,
                  device = None,
                  canvasContext = None,
                  postProcessingContext = None,
                  postProcessingPipeline = None,
                  depthView = None,
                  quadMesh = qm,
                  sampler = None,
                  primitiveTopology = ''triangle-list''\<rparr>)"

definition getDevice :: "WebGPURenderer \<Rightarrow> error + handle" where
  "getDevice r =
     (case device r of
        None \<Rightarrow> Inl (Error ''Error: Device not found'')
      | Some dev \<Rightarrow> Inr dev)"

definition setUsePostProcessing :: "bool \<Rightarrow> WebGPURenderer \<Rightarrow> WebGPURenderer" where
  "setUsePostProcessing use r =
     (let r1 = r\<lparr>usePostProcessing := use\<rparr>
      in if use
         then (let r2 = r1\<lparr>renderingCanvas := hideCanvas (renderingCanvas r1)\<rparr>
               in r2\<lparr>postProcessingRenderingCanvas :=
                        displayCanvas (postProcessingRenderingCanvas r2)\<rparr>)
         else (let r2 = r1\<lparr>renderingCanvas := displayCanvas (renderingCanvas r1)\<rparr>
               in r2\<lparr>postProcessingRenderingCanvas :=
                        hideCanvas (postProcessingRenderingCanvas r2)\<rparr>))"

subsection \<open>Encoding a frame\<close>

definition createCommandEncoder :: "gpu_state \<Rightarrow> handle \<times> gpu_state" where
  "createCommandEncoder d = (let (enc, d1) = fresh d in (enc, emit (CreateCommandEncoder enc) d1))"

text \<open>\<^verbatim>\<open>context.getCurrentTexture().createView()\<close>\<close>

definition getTextureView :: "handle \<Rightarrow> gpu_state \<Rightarrow> handle \<times> gpu_state" where
  "getTextureView ctx d =
     (let (tex, d1) = fresh d;
          d2 = emit (GetCurrentTexture ctx tex) d1;
          (view, d3) = fresh d2
      in (view, emit (CreateView tex view) d3))"

definition renderPassDescriptor :: "handle \<Rightarrow> handle \<Rightarrow> render_pass_descriptor" where
  "renderPassDescriptor view dv =
     \<lparr>colorAttachments =
        [\<lparr>ca_view = view,
          ca_clearValue = (9 / 100, 9 / 100, 9 / 100, 1),
          ca_loadOp = LoadClear,
          ca_storeOp = StoreStore\<rparr>],
      depthStencilAttachment =
        \<lparr>da_view = dv,
         da_depthClearValue = 1,
         da_depthLoadOp = LoadClear,
         da_depthStoreOp = StoreStore\<rparr>\<rparr>"

definition getPassEncoder :: "handle \<Rightarrow> handle \<Rightarrow> handle \<Rightarrow> gpu_state \<Rightarrow> handle \<times> gpu_state" where
  "getPassEncoder commandEncoder view dv d =
     (let (passEncoder, d1) = fresh d
      in (passEncoder,
          emit (BeginRenderPass commandEncoder (renderPassDescriptor view dv) passEncoder) d1))"

definition toUniformGPUBuffer :: "gpu_state \<Rightarrow> Float32Array \<Rightarrow> handle \<times> gpu_state" where
  "toUniformGPUBuffer d iterable =
     (let (buffer, d1) = createBuffer (byteLength iterable) [UNIFORM, COPY_DST] d
      in (buffer, writeBuffer buffer 0 iterable d1))"

text \<open>The two \<^verbatim>\<open>instanceof\<close> tests in the order of the source, then the fall-through
  \<^verbatim>\<open>return entry\<close>.\<close>

fun getBindGroupEntryResource :: "gpu_resource \<Rightarrow> gpu_state \<Rightarrow> binding_resource \<times> gpu_state" where
  "getBindGroupEntryResource (GPUBuffer b) d = (BufferBinding b, d)"
| "getBindGroupEntryResource (GPUTexture t) d =
     (let (view, d1) = fresh d in (TextureView view, emit (CreateView t view) d1))"
| "getBindGroupEntryResource entry d = (Unchanged entry, d)"

text \<open>The loop \<^verbatim>\<open>for(let i = 0; i < buffers.length; i++) entries.push(...)\<close>, on the
  buffers from index \<open>i\<close> on.\<close>

fun bindGroupEntries ::
  "nat \<Rightarrow> gpu_resource list \<Rightarrow> bind_group_entry list \<Rightarrow> gpu_state
     \<Rightarrow> bind_group_entry list \<times> gpu_state" where
  "bindGroupEntries i [] entries d = (entries, d)"
| "bindGroupEntries i (b # buffers) entries d =
     (let (res, d1) = getBindGroupEntryResource b d
      in bindGroupEntries (Suc i) buffers (entries @ [\<lparr>binding = i, resource = res\<rparr>]) d1)"

definition setupUniformBindGroup ::
  "gpu_state \<Rightarrow> handle \<Rightarrow> nat \<Rightarrow> gpu_resource list \<Rightarrow> handle \<times> gpu_state" where
  "setupUniformBindGroup d pipeline bindingIndex buffers =
     (let (entries, d1) = bindGroupEntries 0 buffers [] d;
          (layout, d2) = fresh d1;
          d3 = emit (GetBindGroupLayout pipeline bindingIndex layout) d2;
          (bindGroup, d4) = fresh d3
      in (bindGroup, emit (CreateBindGroup layout entries bindGroup) d4))"

fun setBindGroups :: "handle \<Rightarrow> handle list \<Rightarrow> gpu_state \<Rightarrow> gpu_state" where
  "setBindGroups passEncoder [] d = d"
| "setBindGroups passEncoder (g # gs) d =
     setBindGroups passEncoder gs (emit (SetBindGroup passEncoder 0 g) d)"

definition draw ::
  "handle \<Rightarrow> handle \<Rightarrow> WebGPUMesh \<Rightarrow> handle \<Rightarrow> handle list \<Rightarrow> gpu_state \<Rightarrow> gpu_state" where
  "draw passEncoder pipeline msh vb uniformBindingGroups d =
     (let d1 = emit (SetPipeline passEncoder pipeline) d;
          d2 = emit (SetVertexBuffer passEncoder 0 vb) d1;
          d3 = setBindGroups passEncoder uniformBindingGroups d2
      in emit (Draw passEncoder (of_nat (length (getVertices msh)) / (3 + 2 + 3))) d3)"

definition getActorPipeline :: "collaborators \<Rightarrow> world \<Rightarrow> ref \<Rightarrow> handle" where
  "getActorPipeline env w actor = getRenderPipeline env (getMaterial w actor)"

definition renderActor :: "collaborators \<Rightarrow> ref \<Rightarrow> ref \<Rightarrow> handle \<Rightarrow> world \<Rightarrow> world" where
  "renderActor env actor camera passEncoder w =
     (let pipeline = getActorPipeline env w actor;
          (vb, m', d1) = getVertexBuffer (gpuState w) (meshObjs w (getMesh w actor));
          w1 = w\<lparr>meshObjs := (meshObjs w)(getMesh w actor := m')\<rparr>;
          (mActorBuffer, d2) =
             toUniformGPUBuffer d1 (getTransformationMatrix env (getTransform w1 actor));
          (mViewBuffer, d3) =
             toUniformGPUBuffer d2 (getViewTransformationMatrix env (getTransform w1 camera));
          mProjBuffer = getProjectionBuffer env camera;
          (mActorRotBuffer, d4) =
             toUniformGPUBuffer d3 (getRotationMatrix env (getTransform w1 actor));
          (uniformBindingGroup, d5) =
             setupUniformBindGroup d4 pipeline 0
               [GPUBuffer mActorBuffer, GPUBuffer mViewBuffer,
                GPUBuffer mProjBuffer, GPUBuffer mActorRotBuffer]
      in w1\<lparr>gpuState :=
              draw passEncoder pipeline (meshObjs w1 (getMesh w1 actor)) vb
                [uniformBindingGroup] d5\<rparr>)"

text \<open>The loop \<^verbatim>\<open>for(let actor of actors) if(actor != camera) this.renderActor(...)\<close>;
  on object references \<^verbatim>\<open>!=\<close> compares identity.\<close>

fun renderActors :: "collaborators \<Rightarrow> ref list \<Rightarrow> ref \<Rightarrow> handle \<Rightarrow> world \<Rightarrow> world" where
  "renderActors env [] camera passEncoder w = w"
| "renderActors env (actor # actors) camera passEncoder w =
     renderActors env actors camera passEncoder
       (if actor \<noteq> camera then renderActor env actor camera passEncoder w else w)"

definition render :: "collaborators \<Rightarrow> WebGPURenderer \<Rightarrow> ref list \<Rightarrow> ref \<Rightarrow> world \<Rightarrow> world" where
  "render env r actors camera w =
     (case (device r, canvasContext r, depthView r) of
        (Some dev, Some ctx, Some dv) \<Rightarrow>
          (let (commandEncoder, d1) = createCommandEncoder (gpuState w);
               (view, d2) = getTextureView ctx d1;
               (passEncoder, d3) = getPassEncoder commandEncoder view dv d2;
               w1 = renderActors env actors camera passEncoder (w\<lparr>gpuState := d3\<rparr>);
               d4 = emit (EndPass passEncoder) (gpuState w1);
               (commandBuffer, d5) = fresh d4;
               d6 = emit (Finish commandEncoder commandBuffer) d5
           in w1\<lparr>gpuState := emit (Submit [commandBuffer]) d6\<rparr>)
      | _ \<Rightarrow> w)"

text \<open>The renderer is Ready when device, context and depth view are all present.\<close>

definition Ready :: "WebGPURenderer \<Rightarrow> bool" where
  "Ready r \<longleftrightarrow> device r \<noteq> None \<and> canvasContext r \<noteq> None \<and> depthView r \<noteq> None"

subsection \<open>Reading the record of device calls\<close>

definition new_events :: "world \<Rightarrow> world \<Rightarrow> gpu_event list" where
  "new_events w w' = drop (length (events (gpuState w))) (events (gpuState w'))"

fun isCreateCommandEncoder :: "gpu_event \<Rightarrow> bool" where
  "isCreateCommandEncoder (CreateCommandEncoder _) = True"
| "isCreateCommandEncoder _ = False"

fun isBeginRenderPass :: "gpu_event \<Rightarrow> bool" where
  "isBeginRenderPass (BeginRenderPass _ _ _) = True"
| "isBeginRenderPass _ = False"

fun isEndPass :: "gpu_event \<Rightarrow> bool" where
  "isEndPass (EndPass _) = True"
| "isEndPass _ = False"

fun isFinish :: "gpu_event \<Rightarrow> bool" where
  "isFinish (Finish _ _) = True"
| "isFinish _ = False"

fun isSubmit :: "gpu_event \<Rightarrow> bool" where
  "isSubmit (Submit _) = True"
| "isSubmit _ = False"


text \<open>The calls that frame a pass: opening the recording, beginning and ending the pass,
  finishing and submitting.\<close>

definition framing :: "gpu_event \<Rightarrow> bool" where
  "framing e \<longleftrightarrow>
     isCreateCommandEncoder e \<or> isBeginRenderPass e \<or> isEndPass e \<or> isFinish e \<or> isSubmit e"

fun pipelineSet :: "gpu_event \<Rightarrow> handle list" where
  "pipelineSet (SetPipeline _ p) = [p]"
| "pipelineSet _ = []"

fun drawCount :: "gpu_event \<Rightarrow> number list" where
  "drawCount (Draw _ n) = [n]"
| "drawCount _ = []"

definition pipelinesSet :: "gpu_event list \<Rightarrow> handle list" where
  "pipelinesSet es = concat (map pipelineSet es)"

definition drawCounts :: "gpu_event list \<Rightarrow> number list" where
  "drawCounts es = concat (map drawCount es)"

text \<open>What one call added to the record of a device.\<close>

definition gpu_new :: "gpu_state \<Rightarrow> gpu_state \<Rightarrow> gpu_event list" where
  "gpu_new d d' = drop (length (events d)) (events d')"

text \<open>
  How the bind-group builder is to bind a resource, between the device states \<open>d\<close> before
  and \<open>d'\<close> after the call: a buffer as a binding of that buffer, a texture as a view of
  that texture created during the call under a handle not in use before, anything else
  as the value itself.
\<close>

fun bound_as :: "gpu_state \<Rightarrow> gpu_state \<Rightarrow> gpu_resource \<Rightarrow> binding_resource \<Rightarrow> bool" where
  "bound_as d d' (GPUBuffer b) res \<longleftrightarrow> res = BufferBinding b"
| "bound_as d d' (GPUTexture t) res \<longleftrightarrow>
     (case res of
        TextureView v \<Rightarrow>
          next_handle d \<le> v \<and> v < next_handle d' \<and> CreateView t v \<in> set (gpu_new d d')
      | _ \<Rightarrow> False)"
| "bound_as d d' r res \<longleftrightarrow> res = Unchanged r"

text \<open>A scene is the same when no actor changed and no mesh changed its content.\<close>

definition sameScene :: "world \<Rightarrow> world \<Rightarrow> bool" where
  "sameScene w w' \<longleftrightarrow>
     actorObjs w' = actorObjs w \<and> (\<forall>m. vertices (meshObjs w' m) = vertices (meshObjs w m))"

text \<open>The vertex count that the draw call of an actor is sized to.\<close>

definition drawCountOf :: "world \<Rightarrow> ref \<Rightarrow> number" where
  "drawCountOf w actor = of_nat (length (getVertices (meshObjs w (getMesh w actor)))) / 8"

subsection \<open>Reading a mesh as triangles\<close>

text \<open>The content of a mesh in strides of 8 numbers; the first three are the position.\<close>

fun vertexPositions :: "number list \<Rightarrow> (number \<times> number \<times> number) list" where
  "vertexPositions (px # py # pz # u # v # nx # ny # nz # rest) =
     (px, py, pz) # vertexPositions rest"
| "vertexPositions _ = []"

text \<open>Topology \<^verbatim>\<open>triangle-list\<close>: every three vertices are one triangle.\<close>

fun triangleList :: "'a list \<Rightarrow> ('a \<times> 'a \<times> 'a) list" where
  "triangleList (a # b # c # rest) = (a, b, c) # triangleList rest"
| "triangleList _ = []"

text \<open>The edge function of \<open>a\<close>, \<open>b\<close> at the point \<open>p\<close> of the clip-space plane; a point
  is in the closed triangle when the three edge functions agree in sign.\<close>

definition edge ::
  "number \<times> number \<times> number \<Rightarrow> number \<times> number \<times> number \<Rightarrow> number \<times> number \<Rightarrow> number" where
  "edge a b p =
     (case (a, b, p) of ((ax, ay, _), (bx, by, _), (qx, qy)) \<Rightarrow>
        (bx - ax) * (qy - ay) - (by - ay) * (qx - ax))"

definition inTriangle ::
  "(number \<times> number \<times> number) \<times> (number \<times> number \<times> number) \<times> (number \<times> number \<times> number)
     \<Rightarrow> number \<times> number \<Rightarrow> bool" where
  "inTriangle t p =
     (case t of (a, b, c) \<Rightarrow>
        (0 \<le> edge a b p \<and> 0 \<le> edge b c p \<and> 0 \<le> edge c a p) \<or>
        (edge a b p \<le> 0 \<and> edge b c p \<le> 0 \<and> edge c a p \<le> 0))"

definition inSquare :: "number \<times> number \<Rightarrow> bool" where
  "inSquare p \<longleftrightarrow> - 1 \<le> fst p \<and> fst p \<le> 1 \<and> - 1 \<le> snd p \<and> snd p \<le> 1"

definition covers :: "(number \<times> number \<times> number) list \<Rightarrow> number \<times> number \<Rightarrow> bool" where
  "covers ps p \<longleftrightarrow> list_ex (\<lambda>t. inTriangle t p) (triangleList ps)"

subsection \<open>Concrete states for the examples\<close>

definition device0 :: gpu_state where
  "device0 = \<lparr>next_handle = 0, events = []\<rparr>"

definition world0 :: world where
  "world0 =
     \<lparr>gpuState = device0,
      next_ref = 0,
      Actor_actors = [],
      actorObjs = (\<lambda>_. \<lparr>transform = 0, mesh = 0, material = 0\<rparr>),
      meshObjs = (\<lambda>_. WebGPUMesh_new)\<rparr>"

text \<open>A renderer as the constructor leaves it, and the same after the device arrived.\<close>

definition renderer0 :: WebGPURenderer where
  "renderer0 =
     \<lparr>usePostProcessing = False,
      renderingCanvas = \<lparr>canvas = 1, visible = True\<rparr>,
      postProcessingRenderingCanvas = \<lparr>canvas = 2, visible = False\<rparr>,
      gpu = 3,
      adapter = None,
      device = None,
      canvasContext = None,
      postProcessingContext = None,
      postProcessingPipeline = None,
      depthView = None,
      quadMesh = setupQuadMesh (0, 0) \<lparr>x = 0, y = 0, z = 0\<rparr>,
      sampler = None,
      primitiveTopology = ''triangle-list''\<rparr>"

definition rendererReady :: WebGPURenderer where
  "rendererReady = renderer0\<lparr>device := Some 4, canvasContext := Some 5, depthView := Some 6\<rparr>"

definition collab0 :: collaborators where
  "collab0 =
     \<lparr>getRenderPipeline = (\<lambda>mat. 100 + mat),
      getTransformationMatrix = (\<lambda>t. Float32Array [1]),
      getViewTransformationMatrix = (\<lambda>t. Float32Array [2]),
      getRotationMatrix = (\<lambda>t. Float32Array [3]),
      getProjectionBuffer = (\<lambda>cam. 200 + cam)\<rparr>"

text \<open>Three actors, 0, 4 and 8; the device has handed out handles below 10.\<close>

definition scene0 :: world where
  "scene0 = snd (actor_run [OpNew, OpNew, OpNew]
                   (world0\<lparr>gpuState := \<lparr>next_handle = 10, events = []\<rparr>\<rparr>))"

section \<open>Properties\<close>

subsection \<open>The mesh buffer cache\<close>

lemma setVertices_fields:
  "vertices (setVertices v m) = v" "vertexBuffer (setVertices v m) = vertexBuffer m"
  by (simp_all add: setVertices_def)

lemma addVertex_vertices:
  "vertices (addVertex vs m) =
     vertices m @ concat (map (\<lambda>v. getPosition v @ getUV v @ getNormal v) vs)"
  by (induction vs arbitrary: m) (simp_all add: push_def)

lemma addVertex_vertexBuffer: "vertexBuffer (addVertex vs m) = vertexBuffer m"
  by (induction vs arbitrary: m) (simp_all add: push_def)

lemma getVertexBuffer_vertices: "vertices (fst (snd (getVertexBuffer d m))) = vertices m"
  by (cases "vertexBuffer m")
     (simp_all add: getVertexBuffer_def generateVertexBuffer_def createBuffer_def fresh_def
        split_def)

text \<open>
  C6. Two calls of \<open>getVertexBuffer\<close> with nothing in between return the same handle: the
  second call returns what the first one returned, and changes neither the mesh nor the
  device (no allocation, no upload). When the mesh has no cached buffer the first call
  allocates one fresh buffer of 4 bytes a number, with usage vertex and copy-destination,
  uploads the content once and caches the handle; when it has one, the first call returns
  it and does nothing else.
\<close>

theorem getVertexBuffer_twice_same_handle:
  "case getVertexBuffer d m of (b, m', d') \<Rightarrow>
     getVertexBuffer d' m' = (b, m', d') \<and> vertexBuffer m' = Some b \<and>
     vertices m' = vertices m \<and>
     (vertexBuffer m = None \<longrightarrow>
        b = next_handle d \<and> next_handle d' = Suc (next_handle d) \<and>
        events d' = events d @
          [CreateBuffer (4 * length (vertices m)) [VERTEX, COPY_DST] b,
           WriteBuffer b 0 (vertices m)]) \<and>
     (vertexBuffer m \<noteq> None \<longrightarrow> d' = d \<and> m' = m)"
  by (cases "vertexBuffer m")
     (simp_all add: getVertexBuffer_def generateVertexBuffer_def createBuffer_def
        writeBuffer_def fresh_def emit_def)

theorem getVertexBuffer_twice_same_handle_witness:
  "(case getVertexBuffer device0 \<lparr>vertices = [1, 2, 3], vertexBuffer = None\<rparr> of
      (b, m', d') \<Rightarrow>
        getVertexBuffer d' m' = (b, m', d') \<and> b = 0 \<and>
        events d' = [CreateBuffer 12 [VERTEX, COPY_DST] 0, WriteBuffer 0 0 [1, 2, 3]]) \<and>
   (case getVertexBuffer device0 \<lparr>vertices = [1, 2, 3], vertexBuffer = Some 4\<rparr> of
      (b, m', d') \<Rightarrow> b = 4 \<and> d' = device0)"
  using getVertexBuffer_twice_same_handle
          [where d = device0 and m = "\<lparr>vertices = [1, 2, 3], vertexBuffer = None\<rparr>"]
        getVertexBuffer_twice_same_handle
          [where d = device0 and m = "\<lparr>vertices = [1, 2, 3], vertexBuffer = Some 4\<rparr>"]
  by (auto simp: device0_def split: prod.splits)

text \<open>
  C2, at a failing input. A new mesh is given its (empty) vertex buffer, handle 0 of 0
  bytes; then \<open>setVertices [1, 2, 3]\<close>. The cached handle is still there, and the next
  \<open>getVertexBuffer\<close> returns it without building anything: no buffer of 12 bytes is ever
  created. (\<open>setVertices\<close> builds no buffer itself: it does not touch the device.)
\<close>

theorem setVertices_keeps_cached_buffer:
  "(let (b, m1, d1) = getVertexBuffer device0 WebGPUMesh_new;
        m2 = setVertices [1, 2, 3] m1
    in vertices m2 = [1, 2, 3] \<and> vertexBuffer m2 = Some 0 \<and>
       getVertexBuffer d1 m2 = (0, m2, d1) \<and>
       events d1 = [CreateBuffer 0 [VERTEX, COPY_DST] 0, WriteBuffer 0 0 []])"
  by (simp add: getVertexBuffer_def generateVertexBuffer_def createBuffer_def writeBuffer_def
        fresh_def emit_def WebGPUMesh_new_def setVertices_def device0_def)

text \<open>
  C7, at a failing input. The vertex with position (1, 2, 3), uv (4, 5) and normal
  (6, 7, 8) is added to a mesh whose buffer (handle 0, 0 bytes) is cached. Its attributes
  are appended in the order position, uv, normal, but the cached handle stays, and the
  next \<open>getVertexBuffer\<close> returns it without building anything.
\<close>

theorem addVertex_keeps_cached_buffer:
  "(let (b, m1, d1) = getVertexBuffer device0 WebGPUMesh_new;
        m2 = addVertex [\<lparr>position = \<lparr>x = 1, y = 2, z = 3\<rparr>, uv = (4, 5),
                         normal = \<lparr>x = 6, y = 7, z = 8\<rparr>\<rparr>] m1
    in vertices m2 = [1, 2, 3, 4, 5, 6, 7, 8] \<and> vertexBuffer m2 = Some 0 \<and>
       getVertexBuffer d1 m2 = (0, m2, d1) \<and>
       events d1 = [CreateBuffer 0 [VERTEX, COPY_DST] 0, WriteBuffer 0 0 []])"
  by (simp add: getVertexBuffer_def generateVertexBuffer_def createBuffer_def writeBuffer_def
        fresh_def emit_def WebGPUMesh_new_def push_def getPosition_def getUV_def
        getNormal_def toArray_def device0_def)

subsection \<open>The quad mesh\<close>

lemma quad_vertices:
  "vertices (setupQuadMesh (u, v) n) =
     [- 1, 1, 0, u, v, x n, y n, z n,
      - 1, - 1, 0, u, v, x n, y n, z n,
      1, - 1, 0, u, v, x n, y n, z n,
      - 1, 1, 0, u, v, x n, y n, z n,
      1, 1, 0, u, v, x n, y n, z n,
      1, - 1, 0, u, v, x n, y n, z n]"
  by (simp add: setupQuadMesh_def Vertex_new_def Vector3_new_def num_or_def push_def
        getPosition_def getUV_def getNormal_def toArray_def WebGPUMesh_new_def)

lemma quad_positions:
  "vertexPositions (vertices (setupQuadMesh duv n)) =
     [(- 1, 1, 0), (- 1, - 1, 0), (1, - 1, 0), (- 1, 1, 0), (1, 1, 0), (1, - 1, 0)]"
  by (cases duv) (simp add: quad_vertices)

lemma quad_length: "length (vertices (setupQuadMesh duv n)) = 48"
  by (cases duv) (simp add: quad_vertices)

lemma quad_covers_square:
  "covers [(- 1, 1, 0), (- 1, - 1, 0), (1, - 1, 0), (- 1, 1, 0), (1, 1, 0), (1, - 1, 0)] p
     \<longleftrightarrow> inSquare p"
proof -
  obtain px py where p: "p = (px, py)" by (cases p)
  have lower: "inTriangle ((- 1, 1, 0), (- 1, - 1, 0), (1, - 1, 0)) (px, py)
      \<longleftrightarrow> - 1 \<le> px \<and> - 1 \<le> py \<and> px + py \<le> 0"
    by (auto simp: inTriangle_def edge_def algebra_simps)
  have upper: "inTriangle ((- 1, 1, 0), (1, 1, 0), (1, - 1, 0)) (px, py)
      \<longleftrightarrow> px \<le> 1 \<and> py \<le> 1 \<and> 0 \<le> px + py"
    by (auto simp: inTriangle_def edge_def algebra_simps)
  show ?thesis
    unfolding p covers_def inSquare_def
    by (simp add: lower upper del: One_nat_def) linarith
qed

text \<open>
  C8. The renderer's constructor, when it succeeds, holds the mesh that \<open>setupQuadMesh\<close>
  builds (and it fails only when there is no GPU). That mesh has 6 * 8 = 48 numbers; its
  six positions, read in strides of 8, are two triangles, and a point of the plane lies in
  one of the two triangles exactly when it lies in the square from (-1, -1) to (1, 1).
\<close>

theorem quadMesh_48_numbers_two_triangles:
  "(case WebGPURenderer_new navigator_gpu primary post duv n of
      Inl e \<Rightarrow> navigator_gpu = None
    | Inr r \<Rightarrow> quadMesh r = setupQuadMesh duv n) \<and>
   length (vertices (setupQuadMesh duv n)) = 6 * 8 \<and>
   vertexPositions (vertices (setupQuadMesh duv n)) =
     [(- 1, 1, 0), (- 1, - 1, 0), (1, - 1, 0), (- 1, 1, 0), (1, 1, 0), (1, - 1, 0)] \<and>
   length (triangleList (vertexPositions (vertices (setupQuadMesh duv n)))) = 2 \<and>
   (\<forall>p. covers (vertexPositions (vertices (setupQuadMesh duv n))) p \<longleftrightarrow> inSquare p)"
proof -
  have "case WebGPURenderer_new navigator_gpu primary post duv n of
      Inl e \<Rightarrow> navigator_gpu = None
    | Inr r \<Rightarrow> quadMesh r = setupQuadMesh duv n"
    by (cases navigator_gpu) (simp_all add: WebGPURenderer_new_def setupGPU_def)
  then show ?thesis
    by (simp add: quad_length quad_positions quad_covers_square)
qed

theorem quadMesh_48_numbers_two_triangles_witness:
  "(case WebGPURenderer_new (Some 1) \<lparr>canvas = 2, visible = False\<rparr>
           \<lparr>canvas = 3, visible = False\<rparr> (0, 0) \<lparr>x = 0, y = 0, z = 0\<rparr> of
      Inl e \<Rightarrow> False
    | Inr r \<Rightarrow> length (vertices (quadMesh r)) = 48 \<and>
        covers (vertexPositions (vertices (quadMesh r))) (1 / 2, - 1 / 3) \<and>
        \<not> covers (vertexPositions (vertices (quadMesh r))) (3 / 2, 0))"
proof -
  note t = quadMesh_48_numbers_two_triangles
             [where navigator_gpu = "Some 1" and primary = "\<lparr>canvas = 2, visible = False\<rparr>"
                and post = "\<lparr>canvas = 3, visible = False\<rparr>" and duv = "(0, 0)"
                and n = "\<lparr>x = 0, y = 0, z = 0\<rparr>"]
  from t have len: "length (vertices (setupQuadMesh (0, 0) \<lparr>x = 0, y = 0, z = 0\<rparr>)) = 48"
    by simp
  from t have cov: "covers (vertexPositions (vertices (setupQuadMesh (0, 0) \<lparr>x = 0, y = 0, z = 0\<rparr>))) p
      \<longleftrightarrow> inSquare p" for p
    by blast
  show ?thesis
  proof (cases "WebGPURenderer_new (Some 1) \<lparr>canvas = 2, visible = False\<rparr>
           \<lparr>canvas = 3, visible = False\<rparr> (0, 0) \<lparr>x = 0, y = 0, z = 0\<rparr>")
    case (Inl e)
    with t show ?thesis by simp
  next
    case (Inr r)
    with t have "quadMesh r = setupQuadMesh (0, 0) \<lparr>x = 0, y = 0, z = 0\<rparr>" by simp
    then show ?thesis unfolding Inr by (simp add: len cov inSquare_def)
  qed
qed

subsection \<open>The post-processing toggle\<close>

text \<open>
  C4. After \<open>setUsePostProcessing use\<close>, from any renderer state, exactly one of the two
  canvases is visible: the post-processing canvas when \<open>use\<close> is true, the primary canvas
  when it is false.
\<close>

theorem setUsePostProcessing_one_visible:
  "(let r' = setUsePostProcessing use r
    in visible (renderingCanvas r') \<noteq> visible (postProcessingRenderingCanvas r') \<and>
       visible (postProcessingRenderingCanvas r') = use \<and>
       visible (renderingCanvas r') = (\<not> use) \<and>
       usePostProcessing r' = use)"
  by (simp add: setUsePostProcessing_def displayCanvas_def hideCanvas_def Let_def)

subsection \<open>Before the device is bound\<close>

text \<open>
  C9. With no device bound, \<open>render\<close> returns the world as it was, and \<open>getDevice\<close> fails
  with the error \<open>Error: Device not found\<close>. \<open>getDevice\<close> returns a device exactly when one
  is bound, and then it returns that one: never the absent device.
\<close>

theorem not_ready_render_silent_getDevice_loud:
  "(device r = None \<longrightarrow>
      render env r actors camera w = w \<and>
      getDevice r = Inl (Error ''Error: Device not found'')) \<and>
   (getDevice r = Inr dev \<longleftrightarrow> device r = Some dev)"
  by (auto simp: render_def getDevice_def split: option.splits)

subsection \<open>The actor registry\<close>

lemma Actor_new_registry:
  assumes "Actor_new w = (this, w')"
  shows "this = next_ref w" "Actor_actors w' = Actor_actors w @ [this]"
    "next_ref w' = next_ref w + 4"
  using assms by (auto simp: Actor_new_def Let_def)

lemma actor_step_registry:
  assumes "actor_step opn w = (made, w')"
  shows "Actor_actors w' = Actor_actors w @ made \<and> next_ref w \<le> next_ref w' \<and>
     (\<forall>a\<in>set made. next_ref w \<le> a \<and> a < next_ref w') \<and> distinct made"
proof (cases opn)
  case OpNew
  obtain this w1 where n: "Actor_new w = (this, w1)" by (cases "Actor_new w")
  with assms OpNew have e: "made = [this]" "w' = w1" by simp_all
  show ?thesis using Actor_new_registry [OF n] unfolding e by simp
qed (use assms in \<open>auto simp: update_def setMesh_def setMaterial_def\<close>)

lemma actor_run_registry:
  "actor_run ops w = (made, w') \<Longrightarrow>
     Actor_actors w' = Actor_actors w @ made \<and> next_ref w \<le> next_ref w' \<and>
     (\<forall>a\<in>set made. next_ref w \<le> a \<and> a < next_ref w') \<and> distinct made"
proof (induction ops arbitrary: w made w')
  case Nil
  then show ?case by simp
next
  case (Cons opn ops)
  obtain m1 w1 where s: "actor_step opn w = (m1, w1)" by (cases "actor_step opn w")
  obtain m2 w2 where r: "actor_run ops w1 = (m2, w2)" by (cases "actor_run ops w1")
  from Cons.prems s r have e: "made = m1 @ m2" "w' = w2" by simp_all
  from actor_step_registry [OF s]
  have a1: "Actor_actors w1 = Actor_actors w @ m1" and a2: "next_ref w \<le> next_ref w1"
    and a3: "\<forall>a\<in>set m1. next_ref w \<le> a \<and> a < next_ref w1" and a4: "distinct m1"
    by simp_all
  from Cons.IH [OF r]
  have b1: "Actor_actors w2 = Actor_actors w1 @ m2" and b2: "next_ref w1 \<le> next_ref w2"
    and b3: "\<forall>a\<in>set m2. next_ref w1 \<le> a \<and> a < next_ref w2" and b4: "distinct m2"
    by simp_all
  have "set m1 \<inter> set m2 = {}" using a3 b3 by fastforce
  then have "distinct (m1 @ m2)" using a4 b4 by simp
  moreover have "\<forall>a\<in>set (m1 @ m2). next_ref w \<le> a \<and> a < next_ref w2"
    using a2 a3 b2 b3 by fastforce
  ultimately show ?case unfolding e using a1 a2 b1 b2 by simp
qed

lemma actor_run_example:
  "fst (actor_run [OpNew, OpSetMesh 0 7, OpNew, OpGetActors, OpNew] world0) = [0, 4, 8]"
  by code_simp

text \<open>
  C10. Run any sequence of the operations of class \<open>Actor\<close> (constructions among them);
  \<open>made\<close> lists the actors constructed, in construction order. Afterwards \<open>getActors\<close>
  returns the registry as it was before, followed by exactly \<open>made\<close>: nothing was removed
  or reordered, every constructed actor is there, each once (they are distinct, and new
  with respect to the starting store). Started from a registry without repetitions that
  holds only allocated objects, the registry has no repetitions afterwards.
\<close>

theorem registry_holds_every_actor_in_order:
  assumes run: "actor_run ops w = (made, w')"
  shows "getActors w' = getActors w @ made \<and> distinct made \<and>
     (\<forall>a\<in>set made. next_ref w \<le> a) \<and>
     ((\<forall>a\<in>set (getActors w). a < next_ref w) \<and> distinct (getActors w)
        \<longrightarrow> distinct (getActors w'))"
proof -
  from actor_run_registry [OF run]
  have reg: "Actor_actors w' = Actor_actors w @ made"
    and fr: "\<forall>a\<in>set made. next_ref w \<le> a \<and> a < next_ref w'"
    and dm: "distinct made"
    by simp_all
  have "distinct (Actor_actors w @ made)"
    if "\<forall>a\<in>set (Actor_actors w). a < next_ref w" and "distinct (Actor_actors w)"
  proof -
    have "set (Actor_actors w) \<inter> set made = {}"
      using that(1) fr by fastforce
    then show ?thesis using that(2) dm by simp
  qed
  then show ?thesis using reg fr dm by (simp add: getActors_def)
qed

theorem registry_holds_every_actor_in_order_witness:
  "getActors (snd (actor_run [OpNew, OpSetMesh 0 7, OpNew, OpGetActors, OpNew] world0))
     = [0, 4, 8]"
proof -
  obtain made w' where
    run: "actor_run [OpNew, OpSetMesh 0 7, OpNew, OpGetActors, OpNew] world0 = (made, w')"
    by (cases "actor_run [OpNew, OpSetMesh 0 7, OpNew, OpGetActors, OpNew] world0")
  have m: "made = [0, 4, 8]"
    using actor_run_example unfolding run by simp
  have "getActors w' = getActors world0 @ made"
    using registry_holds_every_actor_in_order [OF run] by blast
  then have "getActors w' = [0, 4, 8]"
    by (simp add: m getActors_def world0_def)
  then show ?thesis unfolding run by simp
qed

subsection \<open>The bind-group builder\<close>

lemma getBindGroupEntryResource_ext:
  assumes "getBindGroupEntryResource b d = (res, d1)"
  shows "next_handle d \<le> next_handle d1" "\<exists>new. events d1 = events d @ new"
    "bound_as d d1 b res"
  using assms
  by (cases b; auto simp: fresh_def emit_def gpu_new_def)+

lemma bound_as_mono:
  assumes "bound_as d1 d2 r res" "next_handle d0 \<le> next_handle d1"
    "next_handle d2 \<le> next_handle d3"
    "events d1 = events d0 @ n1" "events d3 = events d2 @ n3" "events d2 = events d1 @ n2"
  shows "bound_as d0 d3 r res"
  using assms
  by (cases r; cases res; auto simp: gpu_new_def)

lemma bindGroupEntries_spec:
  "bindGroupEntries i bs acc d = (es, d') \<Longrightarrow>
     length es = length acc + length bs \<and> take (length acc) es = acc \<and>
     next_handle d \<le> next_handle d' \<and> (\<exists>new. events d' = events d @ new) \<and>
     (\<forall>k<length bs. binding (es ! (length acc + k)) = i + k \<and>
        bound_as d d' (bs ! k) (resource (es ! (length acc + k))))"
proof (induction bs arbitrary: i acc d es d')
  case Nil
  then show ?case by simp
next
  case (Cons b bs)
  obtain res d1 where g: "getBindGroupEntryResource b d = (res, d1)"
    by (cases "getBindGroupEntryResource b d")
  let ?e = "\<lparr>binding = i, resource = res\<rparr>"
  from Cons.prems g have run: "bindGroupEntries (Suc i) bs (acc @ [?e]) d1 = (es, d')"
    by simp
  from getBindGroupEntryResource_ext [OF g]
  obtain n1 where h1: "next_handle d \<le> next_handle d1" and e1: "events d1 = events d @ n1"
    and b1: "bound_as d d1 b res"
    by blast
  from Cons.IH [OF run]
  obtain n2 where len: "length es = length acc + 1 + length bs"
    and tk: "take (length acc + 1) es = acc @ [?e]"
    and h2: "next_handle d1 \<le> next_handle d'" and e2: "events d' = events d1 @ n2"
    and rest: "\<forall>k<length bs. binding (es ! (length acc + 1 + k)) = Suc i + k \<and>
        bound_as d1 d' (bs ! k) (resource (es ! (length acc + 1 + k)))"
    by auto
  have at: "es ! length acc = ?e"
  proof -
    have "es ! length acc = take (length acc + 1) es ! length acc" by simp
    also have "\<dots> = ?e" unfolding tk by simp
    finally show ?thesis .
  qed
  have pre: "take (length acc) es = acc"
  proof -
    have "take (length acc) es = take (length acc) (take (length acc + 1) es)" by simp
    also have "\<dots> = acc" unfolding tk by simp
    finally show ?thesis .
  qed
  have each: "binding (es ! (length acc + k)) = i + k \<and>
        bound_as d d' ((b # bs) ! k) (resource (es ! (length acc + k)))"
    if k: "k < length (b # bs)" for k
  proof (cases k)
    case 0
    have "bound_as d d' b res"
      by (rule bound_as_mono [OF b1 _ h2 _ _ e1, where ?n1.0 = "[]" and ?n3.0 = n2])
         (simp_all add: e2)
    then show ?thesis using 0 at by simp
  next
    case (Suc j)
    with k have j: "j < length bs" by simp
    from rest j have bj: "binding (es ! (length acc + 1 + j)) = Suc i + j"
      and rj: "bound_as d1 d' (bs ! j) (resource (es ! (length acc + 1 + j)))"
      by simp_all
    have "bound_as d d' (bs ! j) (resource (es ! (length acc + 1 + j)))"
      by (rule bound_as_mono [OF rj h1 _ e1 _ e2, where ?n3.0 = "[]"]) simp_all
    then show ?thesis using Suc bj by simp
  qed
  show ?case
    using len pre h1 h2 e1 e2 each by auto
qed

text \<open>
  C5, as the claim states it, fails: given a value that is neither a buffer, a texture nor
  a sampler, the builder does not fail. It returns bind group 1, created from an entry that
  holds the value unchanged at slot 0.
\<close>

theorem setupUniformBindGroup_unrecognized_kind_accepted:
  "setupUniformBindGroup device0 9 0 [OtherValue 7] =
     (1, \<lparr>next_handle = 2,
          events = [GetBindGroupLayout 9 0 0,
                    CreateBindGroup 0 [\<lparr>binding = 0, resource = Unchanged (OtherValue 7)\<rparr>] 1]\<rparr>)"
  by (simp add: setupUniformBindGroup_def device0_def fresh_def emit_def)

text \<open>
  C5, amended. For every resource list the builder returns a bind group: it asks the
  pipeline for the layout at the group index and creates the group from one entry a
  resource, at the slots 0, 1, ..., in the order of the list. A buffer is bound as a
  binding of that buffer, a texture as a view of it created during the call, and any
  other value, a sampler or not, is passed through unchanged. The builder has no failure
  of its own.
\<close>

theorem setupUniformBindGroup_binds_by_kind:
  "case setupUniformBindGroup d pipeline bindingIndex rs of
     (bindGroup, d') \<Rightarrow>
       (\<exists>layout entries views.
          events d' = events d @ views @
            [GetBindGroupLayout pipeline bindingIndex layout,
             CreateBindGroup layout entries bindGroup] \<and>
          map binding entries = [0..<length rs] \<and>
          (\<forall>k<length rs. bound_as d d' (rs ! k) (resource (entries ! k))))"
proof -
  obtain es d1 where run: "bindGroupEntries 0 rs [] d = (es, d1)"
    by (cases "bindGroupEntries 0 rs [] d")
  from bindGroupEntries_spec [OF run]
  obtain views where len: "length es = length rs"
    and h1: "next_handle d \<le> next_handle d1"
    and e1: "events d1 = events d @ views"
    and each: "\<forall>k<length rs. binding (es ! k) = k \<and> bound_as d d1 (rs ! k) (resource (es ! k))"
    by auto
  let ?layout = "next_handle d1"
  let ?bg = "Suc (next_handle d1)"
  let ?tail = "[GetBindGroupLayout pipeline bindingIndex ?layout, CreateBindGroup ?layout es ?bg]"
  let ?d' = "d1\<lparr>next_handle := Suc ?bg, events := events d1 @ ?tail\<rparr>"
  have res: "setupUniformBindGroup d pipeline bindingIndex rs = (?bg, ?d')"
    by (simp add: setupUniformBindGroup_def run fresh_def emit_def)
  have ev: "events ?d' = events d @ views @ ?tail"
    by (simp add: e1)
  have slots: "map binding es = [0..<length rs]"
    by (rule nth_equalityI) (use len each in simp_all)
  have kinds: "bound_as d ?d' (rs ! k) (resource (es ! k))" if "k < length rs" for k
  proof -
    from each that have "bound_as d d1 (rs ! k) (resource (es ! k))" by simp
    then show ?thesis
      by (rule bound_as_mono [where ?n1.0 = "[]" and ?n2.0 = views and ?n3.0 = ?tail])
         (simp_all add: e1)
  qed
  show ?thesis
    unfolding res using ev slots kinds by auto
qed

theorem setupUniformBindGroup_binds_by_kind_witness:
  "(case setupUniformBindGroup device0 9 0 [GPUBuffer 5, GPUTexture 6, GPUSampler 7] of
      (bindGroup, d') \<Rightarrow>
        bindGroup = 2 \<and>
        events d' =
          [CreateView 6 0, GetBindGroupLayout 9 0 1,
           CreateBindGroup 1
             [\<lparr>binding = 0, resource = BufferBinding 5\<rparr>,
              \<lparr>binding = 1, resource = TextureView 0\<rparr>,
              \<lparr>binding = 2, resource = Unchanged (GPUSampler 7)\<rparr>] 2] \<and>
        bound_as device0 d' (GPUTexture 6) (TextureView 0))"
proof -
  have v: "setupUniformBindGroup device0 9 0 [GPUBuffer 5, GPUTexture 6, GPUSampler 7] =
      (2, \<lparr>next_handle = 3,
           events = [CreateView 6 0, GetBindGroupLayout 9 0 1,
             CreateBindGroup 1
               [\<lparr>binding = 0, resource = BufferBinding 5\<rparr>,
                \<lparr>binding = 1, resource = TextureView 0\<rparr>,
                \<lparr>binding = 2, resource = Unchanged (GPUSampler 7)\<rparr>] 2]\<rparr>)"
    by (simp add: setupUniformBindGroup_def device0_def fresh_def emit_def)
  from setupUniformBindGroup_binds_by_kind
         [where d = device0 and pipeline = 9 and bindingIndex = 0
            and rs = "[GPUBuffer 5, GPUTexture 6, GPUSampler 7]"]
  have "\<forall>k<3. bound_as device0 (snd (setupUniformBindGroup device0 9 0
            [GPUBuffer 5, GPUTexture 6, GPUSampler 7]))
          ([GPUBuffer 5, GPUTexture 6, GPUSampler 7] ! k)
          (resource ([\<lparr>binding = 0, resource = BufferBinding 5\<rparr>,
                \<lparr>binding = 1, resource = TextureView 0\<rparr>,
                \<lparr>binding = 2, resource = Unchanged (GPUSampler 7)\<rparr>] ! k))"
    unfolding v by (simp add: device0_def)
  then have "bound_as device0 (snd (setupUniformBindGroup device0 9 0
            [GPUBuffer 5, GPUTexture 6, GPUSampler 7])) (GPUTexture 6) (TextureView 0)"
    by (simp add: All_less_Suc numeral_3_eq_3 del: bound_as.simps)
  then show ?thesis unfolding v by simp
qed

subsection \<open>Rendering a frame\<close>

lemma pipelinesSet_append: "pipelinesSet (xs @ ys) = pipelinesSet xs @ pipelinesSet ys"
  by (simp add: pipelinesSet_def)

lemma drawCounts_append: "drawCounts (xs @ ys) = drawCounts xs @ drawCounts ys"
  by (simp add: drawCounts_def)


lemma filter_framing_sub:
  "filter isCreateCommandEncoder (filter framing es) = filter isCreateCommandEncoder es"
  "filter isBeginRenderPass (filter framing es) = filter isBeginRenderPass es"
  "filter isSubmit (filter framing es) = filter isSubmit es"
  by (induction es) (auto simp: framing_def)

lemma renderActor_events:
  "\<exists>new. events (gpuState (renderActor env actor camera pass w)) = events (gpuState w) @ new \<and>
     filter framing new = [] \<and>
     pipelinesSet new = [getActorPipeline env w actor] \<and>
     drawCounts new = [drawCountOf w actor]"
  by (cases "vertexBuffer (meshObjs w (getMesh w actor))")
     (simp_all add: renderActor_def getVertexBuffer_def generateVertexBuffer_def
        toUniformGPUBuffer_def setupUniformBindGroup_def draw_def createBuffer_def
        writeBuffer_def fresh_def emit_def split_def Let_def framing_def pipelinesSet_def
        drawCounts_def drawCountOf_def getVertices_def getMesh_def)

lemma renderActor_sameScene: "sameScene w (renderActor env actor camera pass w)"
  by (cases "vertexBuffer (meshObjs w (getMesh w actor))")
     (simp_all add: renderActor_def getVertexBuffer_def generateVertexBuffer_def
        toUniformGPUBuffer_def setupUniformBindGroup_def createBuffer_def
        fresh_def split_def Let_def sameScene_def)

lemma sameScene_refl: "sameScene w w"
  by (simp add: sameScene_def)

lemma sameScene_trans: "sameScene w w1 \<Longrightarrow> sameScene w1 w2 \<Longrightarrow> sameScene w w2"
  by (simp add: sameScene_def)

lemma sameScene_reads:
  assumes "sameScene w w1"
  shows "getActorPipeline env w1 a = getActorPipeline env w a"
    "drawCountOf w1 a = drawCountOf w a"
  using assms
  by (simp_all add: sameScene_def getActorPipeline_def getMaterial_def drawCountOf_def
        getMesh_def getVertices_def)

lemma renderActors_events:
  "\<exists>new. events (gpuState (renderActors env actors camera pass w)) = events (gpuState w) @ new \<and>
     filter framing new = [] \<and>
     pipelinesSet new = map (getActorPipeline env w) (filter (\<lambda>a. a \<noteq> camera) actors) \<and>
     drawCounts new = map (drawCountOf w) (filter (\<lambda>a. a \<noteq> camera) actors) \<and>
     sameScene w (renderActors env actors camera pass w)"
proof (induction actors arbitrary: w)
  case Nil
  show ?case by (simp add: sameScene_refl pipelinesSet_def drawCounts_def)
next
  case (Cons actor actors)
  show ?case
  proof (cases "actor = camera")
    case True
    with Cons.IH [of w] show ?thesis by simp
  next
    case False
    let ?w1 = "renderActor env actor camera pass w"
    from renderActor_events [of env actor camera pass w]
    obtain n1 where e1: "events (gpuState ?w1) = events (gpuState w) @ n1"
      and f1: "filter framing n1 = []"
      and p1: "pipelinesSet n1 = [getActorPipeline env w actor]"
      and c1: "drawCounts n1 = [drawCountOf w actor]"
      by blast
    have s1: "sameScene w ?w1" by (rule renderActor_sameScene)
    from Cons.IH [of ?w1]
    obtain n2 where
      e2: "events (gpuState (renderActors env actors camera pass ?w1))
             = events (gpuState ?w1) @ n2"
      and f2: "filter framing n2 = []"
      and p2: "pipelinesSet n2
             = map (getActorPipeline env ?w1) (filter (\<lambda>a. a \<noteq> camera) actors)"
      and c2: "drawCounts n2 = map (drawCountOf ?w1) (filter (\<lambda>a. a \<noteq> camera) actors)"
      and s2: "sameScene ?w1 (renderActors env actors camera pass ?w1)"
      by blast
    have "events (gpuState (renderActors env (actor # actors) camera pass w))
        = events (gpuState w) @ (n1 @ n2)"
      using False e1 e2 by simp
    moreover have "filter framing (n1 @ n2) = []" using f1 f2 by simp
    moreover have "pipelinesSet (n1 @ n2)
        = map (getActorPipeline env w) (filter (\<lambda>a. a \<noteq> camera) (actor # actors))"
      using False p1 p2 by (simp add: sameScene_reads [OF s1] pipelinesSet_append)
    moreover have "drawCounts (n1 @ n2)
        = map (drawCountOf w) (filter (\<lambda>a. a \<noteq> camera) (actor # actors))"
      using False c1 c2 by (simp add: sameScene_reads [OF s1] drawCounts_append)
    moreover have "sameScene w (renderActors env (actor # actors) camera pass w)"
      using False sameScene_trans [OF s1 s2] by simp
    ultimately show ?thesis by blast
  qed
qed

lemma render_not_Ready: "\<not> Ready r \<Longrightarrow> render env r actors camera w = w"
  by (auto simp: render_def Ready_def split: option.splits)

lemma render_Ready_events:
  assumes "device r = Some dev" "canvasContext r = Some ctx" "depthView r = Some dv"
  shows "\<exists>new cb.
     events (gpuState (render env r actors camera w)) = events (gpuState w) @ new \<and>
     filter framing new =
       [CreateCommandEncoder (next_handle (gpuState w)),
        BeginRenderPass (next_handle (gpuState w))
          (renderPassDescriptor (Suc (Suc (next_handle (gpuState w)))) dv)
          (Suc (Suc (Suc (next_handle (gpuState w))))),
        EndPass (Suc (Suc (Suc (next_handle (gpuState w))))),
        Finish (next_handle (gpuState w)) cb,
        Submit [cb]] \<and>
     pipelinesSet new = map (getActorPipeline env w) (filter (\<lambda>a. a \<noteq> camera) actors) \<and>
     drawCounts new = map (drawCountOf w) (filter (\<lambda>a. a \<noteq> camera) actors)"
proof -
  let ?d = "gpuState w"
  let ?h = "next_handle ?d"
  let ?open = "[CreateCommandEncoder ?h, GetCurrentTexture ctx (Suc ?h),
                CreateView (Suc ?h) (Suc (Suc ?h)),
                BeginRenderPass ?h (renderPassDescriptor (Suc (Suc ?h)) dv) (Suc (Suc (Suc ?h)))]"
  let ?d3 = "?d\<lparr>next_handle := Suc (Suc (Suc (Suc ?h))), events := events ?d @ ?open\<rparr>"
  let ?w0 = "w\<lparr>gpuState := ?d3\<rparr>"
  let ?w1 = "renderActors env actors camera (Suc (Suc (Suc ?h))) ?w0"
  let ?cb = "next_handle (gpuState ?w1)"
  let ?close = "[EndPass (Suc (Suc (Suc ?h))), Finish ?h ?cb, Submit [?cb]]"
  have r: "render env r actors camera w =
      ?w1\<lparr>gpuState := (gpuState ?w1)\<lparr>next_handle := Suc ?cb,
                events := events (gpuState ?w1) @ ?close\<rparr>\<rparr>"
    using assms
    by (simp add: render_def createCommandEncoder_def getTextureView_def getPassEncoder_def
          fresh_def emit_def Let_def)
  from renderActors_events [of env actors camera "Suc (Suc (Suc ?h))" ?w0]
  obtain n where e: "events (gpuState ?w1) = events (gpuState ?w0) @ n"
    and f: "filter framing n = []"
    and p: "pipelinesSet n = map (getActorPipeline env ?w0) (filter (\<lambda>a. a \<noteq> camera) actors)"
    and c: "drawCounts n = map (drawCountOf ?w0) (filter (\<lambda>a. a \<noteq> camera) actors)"
    by blast
  have s0: "sameScene w ?w0" by (simp add: sameScene_def)
  have gp: "getActorPipeline env ?w0 = getActorPipeline env w"
    by (rule ext) (rule sameScene_reads [OF s0])
  have gc: "drawCountOf ?w0 = drawCountOf w"
    by (rule ext) (rule sameScene_reads [OF s0])
  let ?new = "?open @ n @ ?close"
  have "events (gpuState (render env r actors camera w)) = events (gpuState w) @ ?new"
    unfolding r using e by simp
  moreover have "filter framing ?new =
       [CreateCommandEncoder ?h,
        BeginRenderPass ?h (renderPassDescriptor (Suc (Suc ?h)) dv) (Suc (Suc (Suc ?h))),
        EndPass (Suc (Suc (Suc ?h))), Finish ?h ?cb, Submit [?cb]]"
    using f by (simp add: framing_def)
  moreover have "pipelinesSet ?new
      = map (getActorPipeline env w) (filter (\<lambda>a. a \<noteq> camera) actors)"
    unfolding pipelinesSet_append p gp by (simp add: pipelinesSet_def)
  moreover have "drawCounts ?new = map (drawCountOf w) (filter (\<lambda>a. a \<noteq> camera) actors)"
    unfolding drawCounts_append c gc by (simp add: drawCounts_def)
  ultimately show ?thesis by blast
qed


lemma new_events_append:
  "events (gpuState w') = events (gpuState w) @ new \<Longrightarrow> new_events w w' = new"
  by (simp add: new_events_def)

text \<open>
  C1. When the renderer is Ready, one call of \<open>render\<close>, for any actor list (the empty one
  too) and any camera, only adds to the record of the device, and among what it adds there
  is exactly one opening of a command encoder, exactly one beginning of a render pass and
  exactly one submission, of a single command buffer. The calls that frame the pass are, in
  this order: open the encoder, begin the pass on it (cleared to 0.09, 0.09, 0.09, 1 and
  depth 1, on the renderer's depth view), end that pass, finish the encoder, submit the
  finished buffer. When the renderer is not Ready, \<open>render\<close> leaves the world as it was.
\<close>

theorem render_one_pass_one_submission:
  "(Ready r \<longrightarrow>
      (let new = new_events w (render env r actors camera w)
       in events (gpuState (render env r actors camera w)) = events (gpuState w) @ new \<and>
          length (filter isCreateCommandEncoder new) = 1 \<and>
          length (filter isBeginRenderPass new) = 1 \<and>
          (\<exists>enc view dv pass cb.
             depthView r = Some dv \<and>
             filter isSubmit new = [Submit [cb]] \<and>
             filter framing new =
               [CreateCommandEncoder enc,
                BeginRenderPass enc (renderPassDescriptor view dv) pass,
                EndPass pass, Finish enc cb, Submit [cb]]))) \<and>
   (\<not> Ready r \<longrightarrow> render env r actors camera w = w)"
proof (intro conjI impI)
  assume "\<not> Ready r"
  then show "render env r actors camera w = w" by (rule render_not_Ready)
next
  assume "Ready r"
  then obtain dev ctx dv where
    rd: "device r = Some dev" "canvasContext r = Some ctx" "depthView r = Some dv"
    by (auto simp: Ready_def)
  let ?w' = "render env r actors camera w"
  let ?h = "next_handle (gpuState w)"
  from render_Ready_events [OF rd, of env actors camera w]
  obtain new cb where e: "events (gpuState ?w') = events (gpuState w) @ new"
    and f: "filter framing new =
       [CreateCommandEncoder ?h,
        BeginRenderPass ?h (renderPassDescriptor (Suc (Suc ?h)) dv) (Suc (Suc (Suc ?h))),
        EndPass (Suc (Suc (Suc ?h))), Finish ?h cb, Submit [cb]]"
    by blast
  have n: "new_events w ?w' = new" by (rule new_events_append [OF e])
  have "filter isCreateCommandEncoder new = filter isCreateCommandEncoder (filter framing new)"
    by (simp only: filter_framing_sub)
  then have c1: "length (filter isCreateCommandEncoder new) = 1"
    unfolding f by simp
  have "filter isBeginRenderPass new = filter isBeginRenderPass (filter framing new)"
    by (simp only: filter_framing_sub)
  then have c2: "length (filter isBeginRenderPass new) = 1"
    unfolding f by simp
  have "filter isSubmit new = filter isSubmit (filter framing new)"
    by (simp only: filter_framing_sub)
  then have c3: "filter isSubmit new = [Submit [cb]]"
    unfolding f by simp
  show "let new = new_events w ?w'
       in events (gpuState ?w') = events (gpuState w) @ new \<and>
          length (filter isCreateCommandEncoder new) = 1 \<and>
          length (filter isBeginRenderPass new) = 1 \<and>
          (\<exists>enc view dv pass cb.
             depthView r = Some dv \<and>
             filter isSubmit new = [Submit [cb]] \<and>
             filter framing new =
               [CreateCommandEncoder enc,
                BeginRenderPass enc (renderPassDescriptor view dv) pass,
                EndPass pass, Finish enc cb, Submit [cb]])"
    unfolding Let_def n using e c1 c2 c3 f rd(3) by blast
qed

lemma rendererReady_Ready: "Ready rendererReady \<and> \<not> Ready renderer0"
  by (simp add: Ready_def rendererReady_def renderer0_def)

lemma scene0_empty_frame:
  "events (gpuState (render collab0 rendererReady [] 4 scene0)) =
     [CreateCommandEncoder 10, GetCurrentTexture 5 11, CreateView 11 12,
      BeginRenderPass 10
        \<lparr>colorAttachments =
           [\<lparr>ca_view = 12, ca_clearValue = (9 / 100, 9 / 100, 9 / 100, 1),
             ca_loadOp = LoadClear, ca_storeOp = StoreStore\<rparr>],
         depthStencilAttachment =
           \<lparr>da_view = 6, da_depthClearValue = 1, da_depthLoadOp = LoadClear,
            da_depthStoreOp = StoreStore\<rparr>\<rparr> 13,
      EndPass 13, Finish 10 14, Submit [14]]"
  by code_simp

theorem render_one_pass_one_submission_witness:
  "Ready rendererReady \<and> \<not> Ready renderer0 \<and>
   length (filter isSubmit (new_events scene0 (render collab0 rendererReady [] 4 scene0))) = 1 \<and>
   length (filter isSubmit
     (new_events scene0 (render collab0 rendererReady [0, 4, 8] 4 scene0))) = 1 \<and>
   render collab0 renderer0 [0, 4, 8] 4 scene0 = scene0"
proof -
  have a: "length (filter isSubmit (new_events scene0 (render collab0 rendererReady acts 4 scene0))) = 1"
    for acts
    using render_one_pass_one_submission
            [where r = rendererReady and w = scene0 and env = collab0 and actors = acts
               and camera = 4]
          rendererReady_Ready
    by (auto simp: Let_def)
  have b: "render collab0 renderer0 [0, 4, 8] 4 scene0 = scene0"
    using render_one_pass_one_submission
            [where r = renderer0 and w = scene0 and env = collab0 and actors = "[0, 4, 8]"
               and camera = 4]
          rendererReady_Ready
    by simp
  show ?thesis using a b rendererReady_Ready by simp
qed




subsection \<open>Examples for the toggle and for the unbound device\<close>

theorem setUsePostProcessing_one_visible_witness:
  "visible (postProcessingRenderingCanvas (setUsePostProcessing True renderer0)) \<and>
   \<not> visible (renderingCanvas (setUsePostProcessing True renderer0)) \<and>
   visible (renderingCanvas (setUsePostProcessing False (setUsePostProcessing True renderer0))) \<and>
   \<not> visible (postProcessingRenderingCanvas
        (setUsePostProcessing False (setUsePostProcessing True renderer0)))"
  using setUsePostProcessing_one_visible [where use = True and r = renderer0]
        setUsePostProcessing_one_visible
          [where use = False and r = "setUsePostProcessing True renderer0"]
  by (simp add: Let_def)

theorem not_ready_render_silent_getDevice_loud_witness:
  "device renderer0 = None \<and>
   render collab0 renderer0 [0, 4, 8] 4 scene0 = scene0 \<and>
   getDevice renderer0 = Inl (Error ''Error: Device not found'') \<and>
   getDevice rendererReady = Inr 4"
proof -
  have d: "device renderer0 = None" "device rendererReady = Some 4"
    by (simp_all add: renderer0_def rendererReady_def)
  show ?thesis
    using not_ready_render_silent_getDevice_loud
            [where r = renderer0 and env = collab0 and actors = "[0, 4, 8]" and camera = 4
               and w = scene0]
          not_ready_render_silent_getDevice_loud [where r = rendererReady and dev = 4] d
    by simp
qed

end
